theory Spec2Isabelle
  imports Main
begin

section \<open>JavaScript values, strings and objects\<close>

text \<open>
  A cell of the table is a JavaScript value. The code only ever moves cells around, so
  the model distinguishes three kinds: \<open>undefined\<close>, a string (the keys of a record
  are strings) and any other defined value, left abstract in the type parameter.
\<close>

datatype 'v jsval = Undefined | Str string | Other 'v

text \<open>
  Strings are sequences of code points below 256 (Isabelle's \<open>char\<close>). On this range
  \<open>String.prototype.toLowerCase\<close> maps \<open>A\<close>..\<open>Z\<close> and the Latin-1 capitals
  (U+00C0..U+00DE without the multiplication sign U+00D7) to the code point 32 above,
  and leaves every other code point alone.
\<close>

definition toLowerCase_char :: "char \<Rightarrow> char" where
  "toLowerCase_char c =
     (let n = (of_char c :: nat)
      in if (65 \<le> n \<and> n \<le> 90) \<or> (192 \<le> n \<and> n \<le> 222 \<and> n \<noteq> 215)
         then char_of (n + 32) else c)"

definition toLowerCase :: "string \<Rightarrow> string" where
  "toLowerCase s = map toLowerCase_char s"

text \<open>
  An optional string in a condition: \<open>undefined\<close> and the empty string are falsy,
  every other string is truthy.
\<close>

fun truthy :: "string option \<Rightarrow> bool" where
  "truthy None = False"
| "truthy (Some s) = (s \<noteq> [])"

text \<open>
  The \<open>fields\<close> object of a record is the list of its own properties in the order
  \<open>Object.keys\<close> and \<open>Object.values\<close> enumerate them (both use the same order).
\<close>

type_synonym 'v object = "(string \<times> 'v jsval) list"

definition Object_keys :: "'v object \<Rightarrow> 'v jsval list" where
  "Object_keys obj = map (\<lambda>kv. Str (fst kv)) obj"

definition Object_values :: "'v object \<Rightarrow> 'v jsval list" where
  "Object_values obj = map snd obj"

section \<open>The repositioning transform\<close>

text \<open>
  \<open>shiftLastItemToFirstIndex\<close>: \<open>arr.pop()\<close> removes and returns the last element,
  and returns \<open>undefined\<close> on an empty array, which it leaves empty;
  \<open>arr.unshift(lastItem)\<close> puts that value in front.
\<close>

definition pop :: "'v jsval list \<Rightarrow> 'v jsval \<times> 'v jsval list" where
  "pop arr = (if arr = [] then (Undefined, []) else (last arr, butlast arr))"

definition unshift :: "'v jsval \<Rightarrow> 'v jsval list \<Rightarrow> 'v jsval list" where
  "unshift x arr = x # arr"

definition shiftLastItemToFirstIndex :: "'v jsval list \<Rightarrow> 'v jsval list" where
  "shiftLastItemToFirstIndex arr =
     (let (lastItem, arr) = pop arr in unshift lastItem arr)"

section \<open>Errors\<close>

text \<open>
  The error object the remote client passes to the completion callback: its \<open>name\<close>,
  which is \<open>undefined\<close> on an object that is not a JavaScript \<open>Error\<close> (the client
  reports its own error objects, which carry none), and its \<open>message\<close>.
\<close>

datatype Error = Error "string option" string

text \<open>
  \<open>JovoError\<close> is a class of jovo-core; the model keeps its constructor arguments in
  their positions: message, code, module, details, hint. The code is one of the constants
  \<open>ErrorCode.ERR\<close> and \<open>ErrorCode.ERR_PLUGIN\<close>, or the name of the error that is
  wrapped. The constructor's code parameter has the default value \<open>ErrorCode.ERR\<close>,
  which JavaScript puts in place of an argument that is \<open>undefined\<close>.
\<close>

datatype ErrorCode = ERR | ERR_PLUGIN | Code string

definition codeOrDefault :: "string option \<Rightarrow> ErrorCode" where
  "codeOrDefault code = (case code of None \<Rightarrow> ERR | Some c \<Rightarrow> Code c)"

datatype JovoError = JovoError string ErrorCode string "string option" "string option"

text \<open>What a call can throw: a \<open>JovoError\<close>, or the runtime's \<open>TypeError\<close>.\<close>

datatype exception = Jovo JovoError | TypeError

section \<open>Installation\<close>

text \<open>
  A configured sheet (\<open>AirtableTable\<close>, declared outside the source): its name and its
  optional type. The select options are handed to the remote client as they are.
\<close>

record AirtableTable =
  name :: string
  type :: "string option"

record Config =
  enabled :: bool
  apiKey :: "string option"
  baseId :: "string option"
  sheets :: "AirtableTable list"

datatype TableClass = DefaultTable | ResponsesTable | KeyValueTable | ObjectArrayTable

text \<open>
  \<open>defaultSheetMap\<close> is an object literal, so \<open>defaultSheetMap[key]\<close> finds its four
  own properties and, for any other key, the properties it inherits from
  \<open>Object.prototype\<close>: the function \<open>Object\<close> under \<open>constructor\<close>, the prototype
  object itself under \<open>__proto__\<close>, and the built-in methods. Every other key gives
  \<open>undefined\<close>. All values that are found are truthy.
\<close>

datatype property = Class TableClass | ObjectFunction | ObjectPrototype | BuiltinMethod

definition defaultSheetMap :: "string \<Rightarrow> property option" where
  "defaultSheetMap key =
     (if key = ''default'' then Some (Class DefaultTable)
      else if key = ''responses'' then Some (Class ResponsesTable)
      else if key = ''keyvalue'' then Some (Class KeyValueTable)
      else if key = ''objectarray'' then Some (Class ObjectArrayTable)
      else if key = ''constructor'' then Some ObjectFunction
      else if key = ''__proto__'' then Some ObjectPrototype
      else if key \<in> set [''hasOwnProperty'', ''isPrototypeOf'', ''propertyIsEnumerable'',
                ''toString'', ''toLocaleString'', ''valueOf'', ''__defineGetter__'',
                ''__defineSetter__'', ''__lookupGetter__'', ''__lookupSetter__'']
           then Some BuiltinMethod
      else None)"

text \<open>
  What \<open>this.use\<close> receives. \<open>new C(sheet)\<close> for one of the four table classes is an
  instance of that class built from the sheet; \<open>new Object(sheet)\<close> is the sheet object
  itself; \<open>new\<close> applied to \<open>undefined\<close>, to the prototype object or to a built-in
  method throws a \<open>TypeError\<close> (none of them is a constructor).
\<close>

datatype plugin = Instance TableClass AirtableTable | Sheet AirtableTable

fun new :: "property option \<Rightarrow> AirtableTable \<Rightarrow> exception + plugin" where
  "new (Some (Class c)) sheet = Inr (Instance c sheet)"
| "new (Some ObjectFunction) sheet = Inr (Sheet sheet)"
| "new (Some ObjectPrototype) sheet = Inl TypeError"
| "new (Some BuiltinMethod) sheet = Inl TypeError"
| "new None sheet = Inl TypeError"

text \<open>
  The plugin object and what \<open>install\<close> changes: the plugins \<open>this.use\<close> has
  installed, in call order, the hooks added to the application's \<open>setup\<close> middleware,
  and \<open>this.base\<close>, which holds the API key and base identifier the remote client was
  constructed with, once it has been constructed.
\<close>

datatype hook = RetrieveSpreadsheetData

record AirtableCMS =
  config :: Config
  used :: "plugin list"
  setupMiddleware :: "hook list"
  base :: "(string \<times> string) option"

text \<open>
  \<open>this.use\<close> belongs to the base class, in jovo-core: it installs the plugin it is
  given by calling the plugin's \<open>install\<close> method. An instance of a table class has
  that method and is recorded. A sheet object is plain configuration data without an
  \<open>install\<close> method, so the call throws a \<open>TypeError\<close>.
\<close>

fun use :: "plugin \<Rightarrow> AirtableCMS \<Rightarrow> exception + AirtableCMS" where
  "use (Instance c sheet) this = Inr (this\<lparr>used := used this @ [Instance c sheet]\<rparr>)"
| "use (Sheet sheet) this = Inl TypeError"

text \<open>
  The body of the \<open>forEach\<close> over the sheets. \<open>sheetType\<close> is the value of the local
  variable \<open>type\<close> when the last \<open>if\<close> is reached.
\<close>

definition sheetType :: "AirtableTable \<Rightarrow> string option" where
  "sheetType sheet =
     (let t = None;
          t = (if \<not> truthy (type sheet) then Some ''Default'' else t);
          t = (if truthy (type sheet) \<and> defaultSheetMap (toLowerCase (the (type sheet))) \<noteq> None
               then Some (toLowerCase (the (type sheet))) else t)
      in t)"

definition useSheet :: "AirtableTable \<Rightarrow> AirtableCMS \<Rightarrow> exception option \<times> AirtableCMS" where
  "useSheet sheet this =
     (if truthy (sheetType sheet)
      then (case new (defaultSheetMap (toLowerCase (the (sheetType sheet)))) sheet of
              Inl e \<Rightarrow> (Some e, this)
            | Inr p \<Rightarrow>
                (case use p this of
                   Inl e \<Rightarrow> (Some e, this)
                 | Inr this' \<Rightarrow> (None, this')))
      else (None, this))"

text \<open>\<open>forEach\<close>: the sheets in order; an exception in the body ends the loop.\<close>

fun forEach :: "AirtableTable list \<Rightarrow> AirtableCMS \<Rightarrow> exception option \<times> AirtableCMS" where
  "forEach [] this = (None, this)"
| "forEach (sheet # rest) this =
     (case useSheet sheet this of
        (Some e, this') \<Rightarrow> (Some e, this')
      | (None, this') \<Rightarrow> forEach rest this')"

text \<open>
  \<open>install\<close>: the hook on the \<open>setup\<close> middleware, the sheets, the two credential
  checks, and the construction of the remote client. \<open>super.install\<close> and the
  middleware object belong to the host application and are taken not to throw; the
  guard \<open>if (this.config.sheets)\<close> always holds, an array being truthy.
\<close>

definition install :: "AirtableCMS \<Rightarrow> exception option \<times> AirtableCMS" where
  "install this0 =
     (let this = this0\<lparr>setupMiddleware := setupMiddleware this0 @ [RetrieveSpreadsheetData]\<rparr>
      in case forEach (sheets (config this)) this of
           (Some e, this) \<Rightarrow> (Some e, this)
         | (None, this) \<Rightarrow>
             if \<not> truthy (apiKey (config this))
             then (Some (Jovo (JovoError
                     ''Can't find api key''
                     ERR_PLUGIN
                     ''jovo-cms-airtable''
                     (Some ''To use the Airtable integration you have to provide a valid api key'')
                     (Some ''You can find your api key on https://airtable.com/api''))), this)
             else if \<not> truthy (baseId (config this))
             then (Some (Jovo (JovoError
                     ''Can't find baseId''
                     ERR_PLUGIN
                     ''jovo-cms-airtable''
                     (Some ''To use the Airtable integrations you have to provide a baseId'')
                     (Some ''You can find your baseId on https://airtable.com/api''))), this)
             else (None, this\<lparr>base := Some (the (apiKey (config this)), the (baseId (config this)))\<rparr>))"

section \<open>Paginated retrieval\<close>

text \<open>A record of the remote table, read through \<open>_get(record, 'fields')\<close>.\<close>

datatype 'v airtable_record = Record (fields: "'v object")

text \<open>
  The page callback handed to \<open>eachPage\<close>, as a function from the accumulated
  array \<open>arr\<close> to its new contents. \<open>records[0]\<close> is \<open>undefined\<close> on a page
  without records, \<open>_get\<close> then yields \<open>undefined\<close>, and \<open>Object.keys\<close> of
  \<open>undefined\<close> throws a \<open>TypeError\<close>. Otherwise the repositioned keys of the first
  record are pushed, then the repositioned values of every record of the page.
\<close>

definition pushValues :: "'v jsval list list \<Rightarrow> 'v airtable_record \<Rightarrow> 'v jsval list list" where
  "pushValues arr record =
     (let values = Object_values (fields record);
          values = shiftLastItemToFirstIndex values
      in arr @ [values])"

definition page :: "'v airtable_record list \<Rightarrow> 'v jsval list list \<Rightarrow> exception + 'v jsval list list" where
  "page records arr =
     (case records of
        [] \<Rightarrow> Inl TypeError
      | record0 # _ \<Rightarrow>
          (let keys = Object_keys (fields record0);
               keys = shiftLastItemToFirstIndex keys;
               arr = arr @ [keys]
           in Inr (foldl pushValues arr records)))"

text \<open>
  How the promise returned by \<open>loadTableData\<close> ends: resolved with the table,
  rejected with a \<open>JovoError\<close>, or never settled because the page callback threw.
\<close>

datatype 'v promise = Resolved "'v jsval list list" | Rejected JovoError | Thrown exception

text \<open>The completion callback: rejects on an error, resolves with \<open>arr\<close> otherwise.\<close>

fun onComplete :: "Error option \<Rightarrow> 'v jsval list list \<Rightarrow> 'v promise" where
  "onComplete (Some (Error errName errMessage)) arr =
     Rejected (JovoError errMessage (codeOrDefault errName) ''jovo-cms-airtable'' None None)"
| "onComplete None arr = Resolved arr"

text \<open>
  Modelled from the spec: the remote client's \<open>select(options).eachPage(onPage, onComplete)\<close>
  is not part of the source. It calls \<open>onPage\<close> with one page's records and a
  continuation; the continuation (which the page callback always calls, as its last
  statement) delivers the next page, and after the last page \<open>onComplete\<close> is called
  with either no error or an error object. A fetch is therefore given by the pages
  delivered, in order, and the error reported on completion, if any. An exception thrown
  by the page callback ends the delivery: the continuation is never called.
\<close>

fun eachPage :: "'v airtable_record list list \<Rightarrow> Error option \<Rightarrow> 'v jsval list list \<Rightarrow> 'v promise" where
  "eachPage [] err arr = onComplete err arr"
| "eachPage (records # rest) err arr =
     (case page records arr of
        Inl e \<Rightarrow> Thrown e
      | Inr arr' \<Rightarrow> eachPage rest err arr')"

text \<open>\<open>loadTableData\<close> starts from the empty array.\<close>

definition loadTableData :: "'v airtable_record list list \<Rightarrow> Error option \<Rightarrow> 'v promise" where
  "loadTableData pages err = eachPage pages err []"

text \<open>
  \<open>loadTableData\<close> seen from its caller, with the remote base as state. The base
  answers every call of \<open>eachPage\<close> with a fetch: \<open>delivers n\<close> is the answer to call
  number \<open>n\<close>, and \<open>calls\<close> counts the calls made so far. The body of
  \<open>loadTableData\<close> calls \<open>eachPage\<close> once, and neither callback calls it again, so
  the promise is settled by that one fetch, whatever later calls would have delivered.
\<close>

datatype 'v remote =
  Remote (delivers: "nat \<Rightarrow> 'v airtable_record list list \<times> Error option") (calls: nat)

definition loadTableDataFrom :: "'v remote \<Rightarrow> 'v promise \<times> 'v remote" where
  "loadTableDataFrom remote =
     (let (pages, err) = delivers remote (calls remote)
      in (loadTableData pages err, Remote (delivers remote) (Suc (calls remote))))"

text \<open>
  For stating the results: the rows one page with at least one record adds to the table,
  namely the repositioned keys of its first record and the repositioned values of each
  of its records.
\<close>

definition recordRow :: "'v airtable_record \<Rightarrow> 'v jsval list" where
  "recordRow record = shiftLastItemToFirstIndex (Object_values (fields record))"

fun pageRows :: "'v airtable_record list \<Rightarrow> 'v jsval list list" where
  "pageRows [] = []"
| "pageRows (record0 # rest) =
     shiftLastItemToFirstIndex (Object_keys (fields record0)) # map recordRow (record0 # rest)"

section \<open>Properties of the repositioning transform\<close>

lemma shift_Nil: "shiftLastItemToFirstIndex [] = [Undefined]"
  by (simp add: shiftLastItemToFirstIndex_def pop_def unshift_def)

lemma shift_snoc: "shiftLastItemToFirstIndex (xs @ [x]) = x # xs"
  by (simp add: shiftLastItemToFirstIndex_def pop_def unshift_def)

lemma shift_nonempty: "arr \<noteq> [] \<Longrightarrow> shiftLastItemToFirstIndex arr = last arr # butlast arr"
  by (simp add: shiftLastItemToFirstIndex_def pop_def unshift_def)

lemma length_shift: "length (shiftLastItemToFirstIndex arr) = max 1 (length arr)"
  by (cases "arr = []") (auto simp: shift_Nil shift_nonempty max_def Suc_le_eq)

section \<open>Properties of lower-casing and of the lookup table\<close>

lemma of_char_toLowerCase_char:
  "(of_char (toLowerCase_char c) :: nat) =
     (if (65 \<le> (of_char c :: nat) \<and> (of_char c :: nat) \<le> 90) \<or> (192 \<le> (of_char c :: nat) \<and> (of_char c :: nat) \<le> 222 \<and> (of_char c :: nat) \<noteq> 215)
      then of_char c + 32 else of_char c)"
  by (simp add: toLowerCase_char_def Let_def)

lemma toLowerCase_char_idem: "toLowerCase_char (toLowerCase_char c) = toLowerCase_char c"
proof -
  have "(of_char (toLowerCase_char (toLowerCase_char c)) :: nat) = of_char (toLowerCase_char c)"
    unfolding of_char_toLowerCase_char [of "toLowerCase_char c"]
    by (simp add: of_char_toLowerCase_char)
  then show ?thesis by (simp only: of_char_eq_iff)
qed

lemma toLowerCase_idem: "toLowerCase (toLowerCase s) = toLowerCase s"
  by (simp add: toLowerCase_def toLowerCase_char_idem)

lemma toLowerCase_char_not_upper: "\<not> (65 \<le> (of_char (toLowerCase_char c) :: nat) \<and> (of_char (toLowerCase_char c) :: nat) \<le> 90)"
  by (simp add: of_char_toLowerCase_char)

lemma toLowerCase_no_upper:
  "c \<in> set (toLowerCase s) \<Longrightarrow> \<not> (65 \<le> (of_char c :: nat) \<and> (of_char c :: nat) \<le> 90)"
  unfolding toLowerCase_def using toLowerCase_char_not_upper by auto

lemma toLowerCase_Nil_iff: "toLowerCase s = [] \<longleftrightarrow> s = []"
  by (simp add: toLowerCase_def)

lemma defaultSheetMap_Nil: "defaultSheetMap [] = None"
  by (simp add: defaultSheetMap_def)

lemma upper_free_not_builtin:
  assumes "\<forall>c\<in>set key. \<not> (65 \<le> (of_char c :: nat) \<and> (of_char c :: nat) \<le> 90)"
  shows "defaultSheetMap key \<noteq> Some BuiltinMethod"
proof
  assume "defaultSheetMap key = Some BuiltinMethod"
  then have "key \<in> set [''hasOwnProperty'', ''isPrototypeOf'', ''propertyIsEnumerable'',
                ''toString'', ''toLocaleString'', ''valueOf'', ''__defineGetter__'',
                ''__defineSetter__'', ''__lookupGetter__'', ''__lookupSetter__'']"
    by (simp add: defaultSheetMap_def split: if_splits)
  then have "\<exists>c\<in>set key. 65 \<le> (of_char c :: nat) \<and> (of_char c :: nat) \<le> 90"
    by auto
  with assms show False by blast
qed

lemma defaultSheetMap_toLowerCase_not_builtin:
  "defaultSheetMap (toLowerCase t) \<noteq> Some BuiltinMethod"
  by (rule upper_free_not_builtin) (simp add: toLowerCase_no_upper)

lemma toLowerCase_Default: "toLowerCase ''Default'' = ''default''"
  by code_simp

lemma useSheet_absent:
  "\<not> truthy (type sheet) \<Longrightarrow>
   useSheet sheet this = (None, this\<lparr>used := used this @ [Instance DefaultTable sheet]\<rparr>)"
  by (simp add: useSheet_def sheetType_def toLowerCase_Default defaultSheetMap_def)

lemma sheetType_present:
  "type sheet = Some t \<Longrightarrow> t \<noteq> [] \<Longrightarrow>
   sheetType sheet = (if defaultSheetMap (toLowerCase t) \<noteq> None then Some (toLowerCase t) else None)"
  by (simp add: sheetType_def)

lemma useSheet_unknown:
  "type sheet = Some t \<Longrightarrow> t \<noteq> [] \<Longrightarrow> defaultSheetMap (toLowerCase t) = None \<Longrightarrow>
   useSheet sheet this = (None, this)"
  by (simp add: useSheet_def sheetType_present)

lemma useSheet_found:
  assumes "type sheet = Some t" and "defaultSheetMap (toLowerCase t) = Some p"
  shows "useSheet sheet this =
           (case new (Some p) sheet of
              Inl e \<Rightarrow> (Some e, this)
            | Inr q \<Rightarrow> (case use q this of Inl e \<Rightarrow> (Some e, this) | Inr this' \<Rightarrow> (None, this')))"
proof -
  from assms(2) have "toLowerCase t \<noteq> []"
    using defaultSheetMap_Nil by force
  then have "t \<noteq> []" by (simp add: toLowerCase_Nil_iff)
  with assms \<open>toLowerCase t \<noteq> []\<close> show ?thesis
    by (simp add: useSheet_def sheetType_present toLowerCase_idem)
qed

section \<open>Properties of the sheet registration\<close>

lemma defaultSheetMap_own:
  "defaultSheetMap ''default'' = Some (Class DefaultTable)"
  "defaultSheetMap ''responses'' = Some (Class ResponsesTable)"
  "defaultSheetMap ''keyvalue'' = Some (Class KeyValueTable)"
  "defaultSheetMap ''objectarray'' = Some (Class ObjectArrayTable)"
  by (simp_all add: defaultSheetMap_def)

lemma defaultSheetMap_Class_iff:
  "defaultSheetMap key = Some (Class c) \<longleftrightarrow>
     key = ''default'' \<and> c = DefaultTable \<or> key = ''responses'' \<and> c = ResponsesTable \<or>
     key = ''keyvalue'' \<and> c = KeyValueTable \<or> key = ''objectarray'' \<and> c = ObjectArrayTable"
  unfolding defaultSheetMap_def by (simp cong: if_cong) blast

lemma defaultSheetMap_ObjectPrototype_iff:
  "defaultSheetMap key = Some ObjectPrototype \<longleftrightarrow> key = ''__proto__''"
  unfolding defaultSheetMap_def by simp

lemma defaultSheetMap_ObjectFunction_iff:
  "defaultSheetMap key = Some ObjectFunction \<longleftrightarrow> key = ''constructor''"
  unfolding defaultSheetMap_def by simp

lemma useSheet_Class:
  assumes "type sheet = Some t" and "defaultSheetMap (toLowerCase t) = Some (Class c)"
  shows "useSheet sheet this = (None, this\<lparr>used := used this @ [Instance c sheet]\<rparr>)"
  using useSheet_found [OF assms, of this] by simp

lemma useSheet_throws_iff:
  "fst (useSheet sheet this) \<noteq> None \<longleftrightarrow>
     map_option toLowerCase (type sheet) = Some ''__proto__''
     \<or> map_option toLowerCase (type sheet) = Some ''constructor''"
proof (cases "truthy (type sheet)")
  case False
  then have "map_option toLowerCase (type sheet) \<noteq> Some ''__proto__''"
    and "map_option toLowerCase (type sheet) \<noteq> Some ''constructor''"
    by (cases "type sheet"; auto simp: toLowerCase_def)+
  with False show ?thesis by (simp add: useSheet_absent)
next
  case True
  then obtain t where t: "type sheet = Some t" "t \<noteq> []"
    by (cases "type sheet") auto
  show ?thesis
  proof (cases "defaultSheetMap (toLowerCase t)")
    case None
    then have "toLowerCase t \<noteq> ''__proto__''" and "toLowerCase t \<noteq> ''constructor''"
      using defaultSheetMap_ObjectPrototype_iff [of "toLowerCase t"]
        defaultSheetMap_ObjectFunction_iff [of "toLowerCase t"] by simp_all
    with t None show ?thesis by (simp add: useSheet_unknown)
  next
    case (Some p)
    with defaultSheetMap_toLowerCase_not_builtin [of t] have nb: "p \<noteq> BuiltinMethod" by auto
    note found = useSheet_found [OF t(1) Some, of this]
    from Some have proto: "toLowerCase t = ''__proto__'' \<longleftrightarrow> p = ObjectPrototype"
      using defaultSheetMap_ObjectPrototype_iff [of "toLowerCase t"] by simp
    from Some have ctor: "toLowerCase t = ''constructor'' \<longleftrightarrow> p = ObjectFunction"
      using defaultSheetMap_ObjectFunction_iff [of "toLowerCase t"] by simp
    from nb show ?thesis
      by (cases p) (simp_all add: found t(1) proto ctor)
  qed
qed

lemma useSheet_result:
  "useSheet sheet this = (None, this) \<or> useSheet sheet this = (Some TypeError, this)
   \<or> (\<exists>p. useSheet sheet this = (None, this\<lparr>used := used this @ [p]\<rparr>))"
proof (cases "truthy (type sheet)")
  case False
  then have "useSheet sheet this = (None, this\<lparr>used := used this @ [Instance DefaultTable sheet]\<rparr>)"
    by (rule useSheet_absent)
  then show ?thesis by blast
next
  case True
  then obtain t where t: "type sheet = Some t" "t \<noteq> []"
    by (cases "type sheet") auto
  show ?thesis
  proof (cases "defaultSheetMap (toLowerCase t)")
    case None
    with t show ?thesis by (simp add: useSheet_unknown)
  next
    case (Some p)
    note found = useSheet_found [OF t(1) Some, of this]
    show ?thesis
    proof (cases p)
      case (Class c)
      with found have "useSheet sheet this = (None, this\<lparr>used := used this @ [Instance c sheet]\<rparr>)"
        by simp
      then show ?thesis by blast
    next
      case ObjectFunction
      with found show ?thesis by simp
    next
      case ObjectPrototype
      with found show ?thesis by simp
    next
      case BuiltinMethod
      with found show ?thesis by simp
    qed
  qed
qed

lemma useSheet_frame:
  assumes "useSheet sheet this = (r, this')"
  shows "config this' = config this \<and> base this' = base this
         \<and> setupMiddleware this' = setupMiddleware this
         \<and> set (used this) \<subseteq> set (used this')
         \<and> (r = None \<or> r = Some TypeError)"
  using assms useSheet_result [of sheet this] by auto

lemma forEach_frame:
  "forEach ss this = (r, this') \<Longrightarrow>
   config this' = config this \<and> base this' = base this
   \<and> setupMiddleware this' = setupMiddleware this
   \<and> set (used this) \<subseteq> set (used this')
   \<and> (r = None \<or> r = Some TypeError)"
proof (induction ss arbitrary: this)
  case Nil
  then show ?case by simp
next
  case (Cons sheet rest)
  obtain r1 this1 where step: "useSheet sheet this = (r1, this1)"
    by (cases "useSheet sheet this")
  note f1 = useSheet_frame [OF step]
  show ?case
  proof (cases r1)
    case None
    with Cons.prems step have "forEach rest this1 = (r, this')" by simp
    from Cons.IH [OF this] f1 show ?thesis by auto
  next
    case (Some e)
    with Cons.prems step have "r = r1" "this' = this1" by simp_all
    with f1 show ?thesis by simp
  qed
qed

lemma forEach_completes_iff:
  "fst (forEach ss this) = None \<longleftrightarrow>
     (\<forall>sheet\<in>set ss. map_option toLowerCase (type sheet) \<noteq> Some ''__proto__''
                     \<and> map_option toLowerCase (type sheet) \<noteq> Some ''constructor'')"
proof (induction ss arbitrary: this)
  case Nil
  then show ?case by simp
next
  case (Cons sheet rest)
  obtain r1 this1 where step: "useSheet sheet this = (r1, this1)"
    by (cases "useSheet sheet this")
  with useSheet_throws_iff [of sheet this]
  have r1: "r1 \<noteq> None \<longleftrightarrow>
      map_option toLowerCase (type sheet) = Some ''__proto__''
      \<or> map_option toLowerCase (type sheet) = Some ''constructor''"
    by simp
  show ?case
  proof (cases r1)
    case None
    with step r1 Cons.IH [of this1] show ?thesis by simp
  next
    case (Some e)
    with step r1 show ?thesis by auto
  qed
qed

lemma forEach_used:
  assumes "forEach ss this = (None, this')" and "sheet \<in> set ss"
    and "\<And>this. useSheet sheet this = (None, this\<lparr>used := used this @ [p]\<rparr>)"
  shows "p \<in> set (used this')"
  using assms(1,2)
proof (induction ss arbitrary: this)
  case Nil
  then show ?case by simp
next
  case (Cons s rest)
  obtain r1 this1 where step: "useSheet s this = (r1, this1)"
    by (cases "useSheet s this")
  with Cons.prems(1) have r1: "r1 = None"
    by (cases r1) simp_all
  with Cons.prems(1) step have rest: "forEach rest this1 = (None, this')" by simp
  show ?case
  proof (cases "sheet = s")
    case True
    from assms(3) [of this] have "useSheet s this = (None, this\<lparr>used := used this @ [p]\<rparr>)"
      unfolding True .
    with step have "this1 = this\<lparr>used := used this @ [p]\<rparr>" by simp
    then have "p \<in> set (used this1)"
      by simp
    moreover from forEach_frame [OF rest] have "set (used this1) \<subseteq> set (used this')"
      by (rule conjunct1 [OF conjunct2 [OF conjunct2 [OF conjunct2]]])
    ultimately show ?thesis by (rule set_mp [rotated])
  next
    case False
    with Cons.prems(2) have "sheet \<in> set rest" by simp
    with rest show ?thesis by (rule Cons.IH)
  qed
qed

section \<open>Properties of the page callback\<close>

lemma foldl_pushValues:
  "foldl pushValues arr records = arr @ map recordRow records"
  by (induction records arbitrary: arr) (simp_all add: pushValues_def recordRow_def)

lemma loadTableData_no_pages: "loadTableData [] None = Resolved []"
  by (simp add: loadTableData_def)

lemma page_empty: "page [] arr = Inl TypeError"
  by (simp add: page_def)

lemma page_nonempty: "records \<noteq> [] \<Longrightarrow> page records arr = Inr (arr @ pageRows records)"
  by (cases records) (simp_all add: page_def foldl_pushValues del: foldl_Cons)

lemma eachPage_nonempty:
  "\<forall>records\<in>set pages. records \<noteq> [] \<Longrightarrow>
   eachPage pages err arr = onComplete err (arr @ concat (map pageRows pages))"
  by (induction pages arbitrary: arr) (simp_all add: page_nonempty)

lemma loadTableData_nonempty:
  "\<forall>records\<in>set pages. records \<noteq> [] \<Longrightarrow>
   loadTableData pages err = onComplete err (concat (map pageRows pages))"
  by (simp add: loadTableData_def eachPage_nonempty)

lemma length_recordRow: "length (recordRow record) = max 1 (length (fields record))"
  by (simp add: recordRow_def length_shift Object_values_def)

lemma length_pageRows:
  assumes "\<forall>record\<in>set records. length (fields record) = n" and "row \<in> set (pageRows records)"
  shows "length row = max 1 n"
proof (cases records)
  case Nil
  with assms(2) show ?thesis by simp
next
  case (Cons record0 rest)
  with assms show ?thesis
    by (auto simp: length_shift Object_keys_def length_recordRow)
qed

lemma loadTableData_uniform_row_lengths:
  assumes "\<forall>records\<in>set pages. records \<noteq> []"
    and "\<forall>records\<in>set pages. \<forall>record\<in>set records. length (fields record) = n"
  shows "loadTableData pages None = Resolved (concat (map pageRows pages))
         \<and> (\<forall>row\<in>set (concat (map pageRows pages)). length row = max 1 n)"
proof -
  have "length row = max 1 n" if "row \<in> set (concat (map pageRows pages))" for row
  proof -
    from that obtain records where "records \<in> set pages" "row \<in> set (pageRows records)"
      by auto
    with assms(2) show ?thesis using length_pageRows by blast
  qed
  with assms(1) show ?thesis by (simp add: loadTableData_nonempty)
qed

section \<open>Properties of the installation\<close>

lemma install_missing_credentials:
  assumes "\<not> truthy (apiKey (config this)) \<or> \<not> truthy (baseId (config this))"
  shows "\<exists>e this'. install this = (Some e, this') \<and> base this' = base this
           \<and> ((\<forall>sheet\<in>set (sheets (config this)).
                   map_option toLowerCase (type sheet) \<noteq> Some ''__proto__''
                   \<and> map_option toLowerCase (type sheet) \<noteq> Some ''constructor'')
                \<longrightarrow> (\<exists>details hint.
                      e = Jovo (JovoError
                            (if \<not> truthy (apiKey (config this))
                             then ''Can't find api key'' else ''Can't find baseId'')
                            ERR_PLUGIN ''jovo-cms-airtable'' details hint)))"
proof -
  let ?this1 = "this\<lparr>setupMiddleware := setupMiddleware this @ [RetrieveSpreadsheetData]\<rparr>"
  obtain r this2 where loop: "forEach (sheets (config this)) ?this1 = (r, this2)"
    by (cases "forEach (sheets (config this)) ?this1")
  from forEach_frame [OF loop]
  have frame: "config this2 = config this" "base this2 = base this" "r = None \<or> r = Some TypeError"
    by simp_all
  from forEach_completes_iff [of "sheets (config this)" ?this1] loop
  have completes: "r = None \<longleftrightarrow>
      (\<forall>sheet\<in>set (sheets (config this)).
          map_option toLowerCase (type sheet) \<noteq> Some ''__proto__''
          \<and> map_option toLowerCase (type sheet) \<noteq> Some ''constructor'')"
    by simp
  show ?thesis
  proof (cases r)
    case None
    with loop frame(1,2) assms completes show ?thesis
      by (auto simp: install_def Let_def)
  next
    case (Some e)
    with completes
    have no: "\<not> (\<forall>sheet\<in>set (sheets (config this)).
                  map_option toLowerCase (type sheet) \<noteq> Some ''__proto__''
                  \<and> map_option toLowerCase (type sheet) \<noteq> Some ''constructor'')"
      by simp
    from Some loop have "install this = (Some e, this2)"
      by (simp add: install_def Let_def)
    with frame(2) no show ?thesis by blast
  qed
qed

section \<open>The claims\<close>

text \<open>
  Claim C1. The table of a fetch delivered in one or more pages should be one header row,
  taken from the first record of the first page, followed by the repositioned records of
  all pages, with no header row for the second and later pages. The page callback pushes
  the repositioned keys of its first record on every call, so a fetch of two pages, one
  record each, yields a second header row between the two data rows. (In general the
  table is the concatenation of \<open>pageRows\<close> over the pages: \<open>loadTableData_nonempty\<close>.)
\<close>

theorem loadTableData_header_per_page:
  "loadTableData
     [[Record [(''Name'', Str ''Alice''), (''ID'', Str ''p1'')]],
      [Record [(''Name'', Str ''Bob''), (''ID'', Str ''p2'')]]] None
   = (Resolved [[Str ''ID'', Str ''Name''], [Str ''p1'', Str ''Alice''],
                [Str ''ID'', Str ''Name''], [Str ''p2'', Str ''Bob'']] :: int promise)"
  by (simp add: loadTableData_def page_def pushValues_def Object_keys_def Object_values_def
      shiftLastItemToFirstIndex_def pop_def unshift_def)

text \<open>
  Claim C2. Every row of the table should have the length of the header row, a record
  that lacks one of the header's fields giving an \<open>undefined\<close> cell in that field's
  place. The page callback takes the keys of the first record for the columns of the
  table (its comment: the keys of a record are the first row of the table, its values the
  values of the current row) and pushes \<open>Object.values\<close> of each record as they come,
  without looking the header's keys up in the record. A record with the single field
  \<open>ID\<close> after a record with \<open>Name\<close> and \<open>ID\<close> therefore gives the row
  \<open>[p2]\<close>, one cell under a header of two, where the claim has \<open>[p2, undefined]\<close>.
  (When all records have the same number of fields the rows do have the header's length:
  \<open>loadTableData_uniform_row_lengths\<close>.)
\<close>

theorem loadTableData_missing_field_short_row:
  "loadTableData
     [[Record [(''Name'', Str ''Alice''), (''ID'', Str ''p1'')],
       Record [(''ID'', Str ''p2'')]]] None
   = (Resolved [[Str ''ID'', Str ''Name''], [Str ''p1'', Str ''Alice''], [Str ''p2'']] :: int promise)"
  by (simp add: loadTableData_def page_def pushValues_def Object_keys_def Object_values_def
      shiftLastItemToFirstIndex_def pop_def unshift_def)

text \<open>
  Claim C3. A sheet whose type is absent, or present but not a known name, should get a
  Default instance, never be skipped. With valid credentials and the single sheet type
  \<open>bogus\<close>, \<open>install\<close> completes and has handed nothing to \<open>this.use\<close>: the local
  variable \<open>type\<close> stays \<open>undefined\<close> and the guard \<open>if (type)\<close> skips the sheet.
\<close>

theorem install_unrecognized_type_counterexample:
  "install \<lparr>config = \<lparr>enabled = True, apiKey = Some ''key'', baseId = Some ''app'',
                        sheets = [\<lparr>name = ''faq'', type = Some ''bogus''\<rparr>]\<rparr>,
            used = [], setupMiddleware = [], base = None\<rparr>
   = (None,
      \<lparr>config = \<lparr>enabled = True, apiKey = Some ''key'', baseId = Some ''app'',
                  sheets = [\<lparr>name = ''faq'', type = Some ''bogus''\<rparr>]\<rparr>,
       used = [], setupMiddleware = [RetrieveSpreadsheetData], base = Some (''key'', ''app'')\<rparr>)"
  by code_simp

text \<open>
  Claim C3, as the code has it. A sheet whose type is absent (\<open>undefined\<close> or the empty
  string) gets a Default instance. A sheet whose type is present and whose lower-casing
  is not a property of the lookup table is skipped: nothing is registered for it, and no
  error is raised.
\<close>

theorem useSheet_absent_or_unrecognized:
  "(\<not> truthy (type sheet) \<longrightarrow>
      useSheet sheet this = (None, this\<lparr>used := used this @ [Instance DefaultTable sheet]\<rparr>))
   \<and> (\<forall>t. type sheet = Some t \<and> t \<noteq> [] \<and> defaultSheetMap (toLowerCase t) = None \<longrightarrow>
         useSheet sheet this = (None, this))"
  by (simp add: useSheet_absent useSheet_unknown)

theorem useSheet_absent_or_unrecognized_witness:
  "useSheet \<lparr>name = ''faq'', type = None\<rparr>
     \<lparr>config = \<lparr>enabled = True, apiKey = None, baseId = None, sheets = []\<rparr>,
      used = [], setupMiddleware = [], base = None\<rparr>
   = (None,
      \<lparr>config = \<lparr>enabled = True, apiKey = None, baseId = None, sheets = []\<rparr>,
       used = [Instance DefaultTable \<lparr>name = ''faq'', type = None\<rparr>],
       setupMiddleware = [], base = None\<rparr>)
   \<and> useSheet \<lparr>name = ''faq'', type = Some ''bogus''\<rparr>
     \<lparr>config = \<lparr>enabled = True, apiKey = None, baseId = None, sheets = []\<rparr>,
      used = [], setupMiddleware = [], base = None\<rparr>
   = (None,
      \<lparr>config = \<lparr>enabled = True, apiKey = None, baseId = None, sheets = []\<rparr>,
       used = [], setupMiddleware = [], base = None\<rparr>)"
proof -
  have lc: "toLowerCase ''bogus'' = ''bogus''" by code_simp
  have unknown: "defaultSheetMap (toLowerCase ''bogus'') = None"
    unfolding lc by (simp add: defaultSheetMap_def)
  from useSheet_absent_or_unrecognized [of "\<lparr>name = ''faq'', type = None\<rparr>"]
    useSheet_absent_or_unrecognized [of "\<lparr>name = ''faq'', type = Some ''bogus''\<rparr>"] unknown
  show ?thesis by simp
qed

text \<open>
  Claim C4. A table without records should give an empty table, without throwing. The
  remote client delivers such a table as one page without records; the page callback
  then reads the fields of \<open>records[0]\<close>, which is \<open>undefined\<close>, and
  \<open>Object.keys\<close> throws a \<open>TypeError\<close>: the promise is neither resolved nor
  rejected. This holds whenever the first page delivered has no record.
\<close>

theorem loadTableData_empty_page_throws:
  "loadTableData ([] # pages) err = Thrown TypeError"
  by (simp add: loadTableData_def page_empty)

text \<open>
  Claim C5. When the remote source reports an error on completion, the promise is
  rejected with a \<open>JovoError\<close> that carries the message of that error, the tag
  \<open>jovo-cms-airtable\<close> and, as its code, the error's name (\<open>ErrorCode.ERR\<close> when
  the error object has no name); it is not resolved with any table, whatever rows the
  pages before had added. The fetch is not retried: the remote base has been called
  once more than before, and what it would deliver on later calls plays no part. The
  completion callback is reached when no page callback threw, that is, when every page
  delivered held a record.
\<close>

theorem loadTableData_rejects:
  assumes "delivers remote (calls remote) = (pages, Some (Error errName errMessage))"
    and "\<forall>records\<in>set pages. records \<noteq> []"
  shows "loadTableDataFrom remote
           = (Rejected (JovoError errMessage (codeOrDefault errName) ''jovo-cms-airtable'' None None),
              Remote (delivers remote) (Suc (calls remote)))
         \<and> (\<forall>t. fst (loadTableDataFrom remote) \<noteq> Resolved t)"
  using assms by (simp add: loadTableDataFrom_def loadTableData_nonempty)

theorem loadTableData_rejects_witness:
  "loadTableDataFrom
     (Remote (\<lambda>n. if n = 0
                   then ([[Record [(''Name'', Str ''Alice''), (''ID'', Str ''p1'')]]],
                         Some (Error None ''Could not find table''))
                   else ([[Record [(''Name'', Str ''Alice''), (''ID'', Str ''p1'')]]], None)) 0)
   = (Rejected (JovoError ''Could not find table'' ERR ''jovo-cms-airtable'' None None)
        :: int promise,
      Remote (\<lambda>n. if n = 0
                   then ([[Record [(''Name'', Str ''Alice''), (''ID'', Str ''p1'')]]],
                         Some (Error None ''Could not find table''))
                   else ([[Record [(''Name'', Str ''Alice''), (''ID'', Str ''p1'')]]], None)) 1)"
proof -
  let ?pages = "[[Record [(''Name'', Str ''Alice''), (''ID'', Str ''p1'')]]] :: int airtable_record list list"
  let ?remote = "Remote (\<lambda>n. if n = 0 then (?pages, Some (Error None ''Could not find table''))
                               else (?pages, None)) 0"
  have first: "delivers ?remote (calls ?remote) = (?pages, Some (Error None ''Could not find table''))"
    by simp
  have ne: "\<forall>records\<in>set ?pages. records \<noteq> []" by simp
  from loadTableData_rejects [OF first ne] show ?thesis
    by (simp add: codeOrDefault_def)
qed

text \<open>
  Claim C6. With the API key or the base identifier missing, \<open>install\<close> should throw
  the configuration error that names the missing credential. The sheets are registered
  before the credentials are checked, and the lookup of a sheet's type in
  \<open>defaultSheetMap\<close> also finds what the object inherits: a type that lower-cases to
  \<open>__proto__\<close> finds the prototype object, \<open>new\<close> on it throws a \<open>TypeError\<close>, and
  \<open>install\<close> is left inside the \<open>forEach\<close>, before the check of the API key. (A
  type that lower-cases to \<open>constructor\<close> ends the same way, in \<open>this.use\<close>. For
  every other configuration the configuration error is thrown, and in all cases
  \<open>this.base\<close> is left as it was: \<open>install_missing_credentials\<close>.)
\<close>

theorem install_proto_throws_TypeError:
  "install \<lparr>config = \<lparr>enabled = True, apiKey = None, baseId = None,
                        sheets = [\<lparr>name = ''faq'', type = Some ''__proto__''\<rparr>]\<rparr>,
            used = [], setupMiddleware = [], base = None\<rparr>
   = (Some TypeError,
      \<lparr>config = \<lparr>enabled = True, apiKey = None, baseId = None,
                  sheets = [\<lparr>name = ''faq'', type = Some ''__proto__''\<rparr>]\<rparr>,
       used = [], setupMiddleware = [RetrieveSpreadsheetData], base = None\<rparr>)"
  by code_simp

text \<open>
  Claim C7. The choice of the table class does not depend on the case of the declared
  type: a type whose lower-casing is \<open>default\<close>, \<open>responses\<close>, \<open>keyvalue\<close> or
  \<open>objectarray\<close> registers an instance of the class of that name, built from the
  sheet, and an absent type registers a Default instance.
\<close>

theorem useSheet_case_insensitive:
  "(type sheet = Some t \<and> toLowerCase t = ''default'' \<longrightarrow>
      useSheet sheet this = (None, this\<lparr>used := used this @ [Instance DefaultTable sheet]\<rparr>))
   \<and> (type sheet = Some t \<and> toLowerCase t = ''responses'' \<longrightarrow>
      useSheet sheet this = (None, this\<lparr>used := used this @ [Instance ResponsesTable sheet]\<rparr>))
   \<and> (type sheet = Some t \<and> toLowerCase t = ''keyvalue'' \<longrightarrow>
      useSheet sheet this = (None, this\<lparr>used := used this @ [Instance KeyValueTable sheet]\<rparr>))
   \<and> (type sheet = Some t \<and> toLowerCase t = ''objectarray'' \<longrightarrow>
      useSheet sheet this = (None, this\<lparr>used := used this @ [Instance ObjectArrayTable sheet]\<rparr>))
   \<and> (type sheet = None \<longrightarrow>
      useSheet sheet this = (None, this\<lparr>used := used this @ [Instance DefaultTable sheet]\<rparr>))"
  by (auto simp: defaultSheetMap_own useSheet_Class useSheet_absent)

theorem useSheet_case_insensitive_witness:
  "useSheet \<lparr>name = ''faq'', type = Some ''KEYVALUE''\<rparr>
     \<lparr>config = \<lparr>enabled = True, apiKey = None, baseId = None, sheets = []\<rparr>,
      used = [], setupMiddleware = [], base = None\<rparr>
   = (None,
      \<lparr>config = \<lparr>enabled = True, apiKey = None, baseId = None, sheets = []\<rparr>,
       used = [Instance KeyValueTable \<lparr>name = ''faq'', type = Some ''KEYVALUE''\<rparr>],
       setupMiddleware = [], base = None\<rparr>)
   \<and> useSheet \<lparr>name = ''faq'', type = Some ''keyvalue''\<rparr>
     \<lparr>config = \<lparr>enabled = True, apiKey = None, baseId = None, sheets = []\<rparr>,
      used = [], setupMiddleware = [], base = None\<rparr>
   = (None,
      \<lparr>config = \<lparr>enabled = True, apiKey = None, baseId = None, sheets = []\<rparr>,
       used = [Instance KeyValueTable \<lparr>name = ''faq'', type = Some ''keyvalue''\<rparr>],
       setupMiddleware = [], base = None\<rparr>)"
proof -
  have upper: "toLowerCase ''KEYVALUE'' = ''keyvalue''" by code_simp
  have lower: "toLowerCase ''keyvalue'' = ''keyvalue''" by code_simp
  from useSheet_case_insensitive [of "\<lparr>name = ''faq'', type = Some ''KEYVALUE''\<rparr>" "''KEYVALUE''"]
    useSheet_case_insensitive [of "\<lparr>name = ''faq'', type = Some ''keyvalue''\<rparr>" "''keyvalue''"]
    upper lower
  show ?thesis by simp
qed

text \<open>
  Claim C8. On a non-empty array \<open>shiftLastItemToFirstIndex\<close> keeps the length, puts
  the last element at index 0 and the others, in order, at the indices after it. On an
  array of at least two elements whose first and last element differ, a second
  application gives a different array from the first (the further distinctness the
  claim asks of the middle elements is not needed).
\<close>

theorem shiftLastItemToFirstIndex_repositions:
  assumes "arr \<noteq> []"
  shows "length (shiftLastItemToFirstIndex arr) = length arr
         \<and> shiftLastItemToFirstIndex arr ! 0 = last arr
         \<and> (\<forall>i<length arr - 1. shiftLastItemToFirstIndex arr ! Suc i = arr ! i)
         \<and> (2 \<le> length arr \<and> hd arr \<noteq> last arr \<longrightarrow>
              shiftLastItemToFirstIndex (shiftLastItemToFirstIndex arr)
                \<noteq> shiftLastItemToFirstIndex arr)"
proof -
  from assms obtain xs x where arr: "arr = xs @ [x]"
    by (metis append_butlast_last_id)
  have twice: "shiftLastItemToFirstIndex (shiftLastItemToFirstIndex arr) \<noteq> shiftLastItemToFirstIndex arr"
    if "2 \<le> length arr" "hd arr \<noteq> last arr"
  proof -
    from that(1) arr obtain z zs where xs: "xs = z # zs"
      by (cases xs) auto
    with that(2) arr have "z \<noteq> x" by simp
    then show ?thesis
      unfolding arr shift_snoc xs by (simp add: shift_nonempty)
  qed
  from arr twice show ?thesis
    by (simp add: shift_snoc nth_append)
qed

theorem shiftLastItemToFirstIndex_repositions_witness:
  "length (shiftLastItemToFirstIndex [Str ''Name'', Str ''Age'', Str ''ID'' :: int jsval]) = 3
   \<and> shiftLastItemToFirstIndex [Str ''Name'', Str ''Age'', Str ''ID'' :: int jsval] ! 0 = Str ''ID''
   \<and> shiftLastItemToFirstIndex [Str ''Name'', Str ''Age'', Str ''ID'' :: int jsval] ! 1 = Str ''Name''
   \<and> shiftLastItemToFirstIndex [Str ''Name'', Str ''Age'', Str ''ID'' :: int jsval] ! 2 = Str ''Age''
   \<and> shiftLastItemToFirstIndex (shiftLastItemToFirstIndex [Str ''Name'', Str ''Age'', Str ''ID'' :: int jsval])
       \<noteq> shiftLastItemToFirstIndex [Str ''Name'', Str ''Age'', Str ''ID'']"
proof -
  let ?arr = "[Str ''Name'', Str ''Age'', Str ''ID'' :: int jsval]"
  have ne: "?arr \<noteq> []" by simp
  from shiftLastItemToFirstIndex_repositions [OF ne]
  have "length (shiftLastItemToFirstIndex ?arr) = 3"
    and "shiftLastItemToFirstIndex ?arr ! 0 = Str ''ID''"
    and all: "\<forall>i<2. shiftLastItemToFirstIndex ?arr ! Suc i = ?arr ! i"
    and "shiftLastItemToFirstIndex (shiftLastItemToFirstIndex ?arr) \<noteq> shiftLastItemToFirstIndex ?arr"
    by simp_all
  moreover from all have "shiftLastItemToFirstIndex ?arr ! 1 = Str ''Name''"
    and "shiftLastItemToFirstIndex ?arr ! 2 = Str ''Age''"
    by (simp_all add: numeral_2_eq_2)
  ultimately show ?thesis by blast
qed

text \<open>
  Claim C9. On the empty array \<open>shiftLastItemToFirstIndex\<close> returns the array with the
  single element \<open>undefined\<close>; so a record without fields adds the row
  \<open>[undefined]\<close> to the table, not an empty row.
\<close>

theorem shiftLastItemToFirstIndex_empty:
  "shiftLastItemToFirstIndex [] = [Undefined]
   \<and> pushValues arr (Record []) = arr @ [[Undefined]]"
  by (simp add: shift_Nil pushValues_def Object_values_def)

text \<open>
  Claim C10. When \<open>install\<close> throws a \<open>JovoError\<close>, it is because the API key or the
  base identifier is missing, and the sheets have been registered by then: the state
  left behind holds, for every configured sheet with an absent type, a Default instance,
  and for every sheet whose lower-cased type names a table class, an instance of that
  class. \<open>this.base\<close> is unchanged.
\<close>

theorem install_registers_before_throwing:
  assumes "install this = (Some (Jovo e), this')" and "sheet \<in> set (sheets (config this))"
  shows "(\<not> truthy (apiKey (config this)) \<or> \<not> truthy (baseId (config this)))
         \<and> base this' = base this
         \<and> (\<not> truthy (type sheet) \<longrightarrow> Instance DefaultTable sheet \<in> set (used this'))
         \<and> (\<forall>t c. type sheet = Some t \<and> defaultSheetMap (toLowerCase t) = Some (Class c)
                \<longrightarrow> Instance c sheet \<in> set (used this'))"
proof -
  let ?this1 = "this\<lparr>setupMiddleware := setupMiddleware this @ [RetrieveSpreadsheetData]\<rparr>"
  obtain r this2 where loop: "forEach (sheets (config this)) ?this1 = (r, this2)"
    by (cases "forEach (sheets (config this)) ?this1")
  from forEach_frame [OF loop]
  have frame: "config this2 = config this" "base this2 = base this" "r = None \<or> r = Some TypeError"
    by simp_all
  have r: "r = None"
  proof (rule ccontr)
    assume "r \<noteq> None"
    with frame(3) have "r = Some TypeError" by simp
    with loop assms(1) show False by (simp add: install_def Let_def)
  qed
  with loop assms(1) frame(1) have this': "this' = this2"
    and missing: "\<not> truthy (apiKey (config this)) \<or> \<not> truthy (baseId (config this))"
    by (auto simp: install_def Let_def split: if_splits)
  from loop r this' have loop': "forEach (sheets (config this)) ?this1 = (None, this')" by simp
  have absent: "Instance DefaultTable sheet \<in> set (used this')" if "\<not> truthy (type sheet)"
    using loop' assms(2) useSheet_absent [OF that] by (rule forEach_used)
  have known: "Instance c sheet \<in> set (used this')"
    if "type sheet = Some t" "defaultSheetMap (toLowerCase t) = Some (Class c)" for t c
    using loop' assms(2) useSheet_Class [OF that] by (rule forEach_used)
  from missing frame(2) this' absent known show ?thesis by blast
qed

theorem install_registers_before_throwing_witness:
  "Instance KeyValueTable \<lparr>name = ''faq'', type = Some ''KeyValue''\<rparr>
     \<in> set (used (snd (install
           \<lparr>config = \<lparr>enabled = True, apiKey = None, baseId = Some ''app'',
                       sheets = [\<lparr>name = ''faq'', type = Some ''KeyValue''\<rparr>,
                                 \<lparr>name = ''log'', type = Some ''bogus''\<rparr>]\<rparr>,
            used = [], setupMiddleware = [], base = None\<rparr>)))"
proof -
  let ?cms = "\<lparr>config = \<lparr>enabled = True, apiKey = None, baseId = Some ''app'',
                       sheets = [\<lparr>name = ''faq'', type = Some ''KeyValue''\<rparr>,
                                 \<lparr>name = ''log'', type = Some ''bogus''\<rparr>]\<rparr>,
            used = [], setupMiddleware = [], base = None\<rparr>"
  have lc: "toLowerCase ''KeyValue'' = ''keyvalue''" by code_simp
  have "fst (install ?cms) = Some (Jovo (JovoError ''Can't find api key'' ERR_PLUGIN ''jovo-cms-airtable''
           (Some ''To use the Airtable integration you have to provide a valid api key'')
           (Some ''You can find your api key on https://airtable.com/api'')))"
    by code_simp
  then have thrown: "install ?cms = (Some (Jovo (JovoError ''Can't find api key'' ERR_PLUGIN ''jovo-cms-airtable''
           (Some ''To use the Airtable integration you have to provide a valid api key'')
           (Some ''You can find your api key on https://airtable.com/api''))), snd (install ?cms))"
    by (metis prod.collapse)
  from install_registers_before_throwing [OF thrown, of "\<lparr>name = ''faq'', type = Some ''KeyValue''\<rparr>"]
  show ?thesis by (simp add: lc defaultSheetMap_own)
qed

end
